theory Spec2Isabelle
  imports Main "HOL-Library.Sublist"
begin

section \<open>The chatbot of L3.ipynb: tool execution, query processing, chat loop\<close>

text \<open>
  The notebook defines three functions that matter here: \<open>execute_tool\<close>,
  \<open>process_query\<close> and \<open>chat_loop\<close>. Everything they touch outside the notebook
  (the model backend, the two tool functions with their network and file accesses,
  \<open>json.dumps\<close>, standard input) is a parameter of the model, collected in the record
  \<open>env\<close>. Python exceptions are values of the type \<open>exn\<close>; printing is a list of
  events; the list objects that Python shares by reference live in an explicit store.
\<close>

subsection \<open>Python values and exceptions\<close>

text \<open>
  The values a tool function can return and a tool call can carry as arguments: \<open>None\<close>,
  booleans, integers, strings, lists and dictionaries (an association list, in insertion
  order).
\<close>

datatype pyval =
    PNone
  | PBool bool
  | PInt int
  | PStr string
  | PList "pyval list"
  | PDict "(string \<times> pyval) list"

type_synonym args = "(string \<times> pyval) list"

text \<open>
  Python exceptions. Instances of the class \<open>Exception\<close>: \<open>KeyError\<close> (a dictionary
  lookup that misses, with the key), \<open>TypeError\<close>, \<open>EOFError\<close> (\<open>input()\<close> at the end
  of standard input) and any other one, with its message (what a tool function or the
  backend client raises). Not instances of \<open>Exception\<close>: \<open>KeyboardInterrupt\<close> (the
  user interrupts the program, at the prompt or while a call is pending) and
  \<open>SystemExit\<close> (\<open>sys.exit()\<close>). \<open>is_Exception e\<close> is \<open>isinstance(e, Exception)\<close>.
\<close>

datatype exn =
    KeyError string
  | TypeError
  | EOFError
  | OtherException string
  | KeyboardInterrupt
  | SystemExit

fun is_Exception :: "exn \<Rightarrow> bool" where
  "is_Exception KeyboardInterrupt = False"
| "is_Exception SystemExit = False"
| "is_Exception e = True"

subsection \<open>Content blocks, messages, events\<close>

text \<open>
  A block of \<open>response.content\<close>: \<open>type == 'text'\<close> with its text,
  \<open>type == 'tool_use'\<close> with \<open>id\<close>, \<open>name\<close> and \<open>input\<close>, or a block of any
  other type (which the loop of \<open>process_query\<close> skips).
\<close>

datatype block =
    Text_block string
  | Tool_use_block string string args
  | Other_block string

datatype role = User | Assistant

datatype tool_result = Tool_result (tool_use_id: string) (result: string)

text \<open>
  The content of a message is the query string, a list of blocks, or a list of
  \<open>tool_result\<close> entries. In \<open>messages\<close> the block list of an assistant message is
  the list object \<open>assistant_content\<close> itself, so the type parameter is an address of
  the store there, and the block list proper in what is sent to the backend.
\<close>

datatype 'a content = Str string | Blocks 'a | Tool_results "tool_result list"

datatype 'a message = Message (role: role) (content: "'a content")

type_synonym sent = "block list message list"

text \<open>
  What the three functions print: a plain line (\<open>print(content.text)\<close>, the banner,
  the blank line after a query), the line \<open>Calling tool ... with args ...\<close> with its
  two parameters, the line \<open>Error: ...\<close> with the exception, and the prompt of
  \<open>input\<close>. What a tool function prints on its own (\<open>Results are saved in: ...\<close>)
  belongs to the tool and is left out.
\<close>

datatype event =
    Printed string
  | Calling_tool string args
  | Error_printed exn
  | Prompted

subsection \<open>The environment\<close>

text \<open>
  \<open>search_papers\<close> and \<open>extract_info\<close> query arXiv and read and write files, and
  \<open>client.messages.create\<close> calls the model: their results are not determined by the
  notebook. Each takes, besides its arguments, the number of backend calls made so far in
  the query (exactly one tool call happens between two backend calls, so this number
  tells the calls apart) and either raises or returns. \<open>json_dumps\<close> stands for
  \<open>json.dumps(result, indent=2)\<close> of the standard library.
\<close>

record env =
  search_papers :: "nat \<Rightarrow> args \<Rightarrow> exn + pyval"
  extract_info :: "nat \<Rightarrow> args \<Rightarrow> exn + pyval"
  messages_create :: "nat \<Rightarrow> sent \<Rightarrow> exn + block list"
  json_dumps :: "pyval \<Rightarrow> exn + string"

subsection \<open>\<open>execute_tool\<close>\<close>

definition mapping_tool_function :: "env \<Rightarrow> string \<rightharpoonup> (nat \<Rightarrow> args \<Rightarrow> exn + pyval)" where
  "mapping_tool_function env =
     [''search_papers'' \<mapsto> search_papers env, ''extract_info'' \<mapsto> extract_info env]"

text \<open>\<open>str(n)\<close> of an integer: decimal digits, with a minus sign.\<close>

fun digits :: "nat \<Rightarrow> string" where
  "digits n =
     (if n < 10 then [char_of (48 + n)]
      else digits (n div 10) @ [char_of (48 + n mod 10)])"

declare digits.simps [simp del]

definition str_int :: "int \<Rightarrow> string" where
  "str_int i = (if i < 0 then CHR ''-'' # digits (nat (- i)) else digits (nat i))"

text \<open>
  \<open>str(result)\<close> in the last branch of \<open>execute_tool\<close>, which only values that are
  neither \<open>None\<close> nor a list nor a dictionary reach.
\<close>

fun py_str :: "pyval \<Rightarrow> string" where
  "py_str (PStr s) = s"
| "py_str (PInt i) = str_int i"
| "py_str (PBool b) = (if b then ''True'' else ''False'')"
| "py_str v = ''''"

text \<open>
  \<open>sep.join(xs)\<close>: the items separated by \<open>sep\<close>; a \<open>TypeError\<close> when an item is
  not a string.
\<close>

fun str_items :: "pyval list \<Rightarrow> exn + string list" where
  "str_items [] = Inr []"
| "str_items (PStr s # xs) =
     (case str_items xs of Inl e \<Rightarrow> Inl e | Inr ss \<Rightarrow> Inr (s # ss))"
| "str_items (v # xs) = Inl TypeError"

fun join_strings :: "string \<Rightarrow> string list \<Rightarrow> string" where
  "join_strings sep [] = []"
| "join_strings sep [s] = s"
| "join_strings sep (s # t # ss) = s @ sep @ join_strings sep (t # ss)"

definition py_join :: "string \<Rightarrow> pyval list \<Rightarrow> exn + string" where
  "py_join sep xs = (case str_items xs of Inl e \<Rightarrow> Inl e | Inr ss \<Rightarrow> Inr (join_strings sep ss))"

definition no_results :: string where
  "no_results =
     ''The operation completed but didn'' @ [CHR 0x27] @ ''t return any results.''"

text \<open>
  \<open>execute_tool(tool_name, tool_args)\<close>. The lookup in \<open>mapping_tool_function\<close>
  raises \<open>KeyError\<close> for a missing name, the call raises what the tool function raises,
  and neither is caught.
\<close>

definition execute_tool :: "env \<Rightarrow> nat \<Rightarrow> string \<Rightarrow> args \<Rightarrow> exn + string" where
  "execute_tool env clock tool_name tool_args =
     (case mapping_tool_function env tool_name of
        None \<Rightarrow> Inl (KeyError tool_name)
      | Some f \<Rightarrow>
          (case f clock tool_args of
             Inl e \<Rightarrow> Inl e
           | Inr PNone \<Rightarrow> Inr no_results
           | Inr (PList xs) \<Rightarrow> py_join '', '' xs
           | Inr (PDict d) \<Rightarrow> json_dumps env (PDict d)
           | Inr v \<Rightarrow> Inr (py_str v)))"

subsection \<open>\<open>process_query\<close>\<close>

text \<open>
  The local variables of \<open>process_query\<close>, the store of the \<open>assistant_content\<close>
  lists (one is allocated in each round of the \<open>while\<close> loop; \<open>nalloc\<close> is the next
  free address), what has been printed, and the conversations sent to the backend so far.
  The field \<open>continue\<close> is the variable that the notebook calls \<open>process_query\<close>.
\<close>

record pq_state =
  messages :: "nat message list"
  store :: "nat \<Rightarrow> block list"
  nalloc :: nat
  response :: "block list"
  continue :: bool
  out :: "event list"
  calls :: "sent list"

text \<open>The conversation as the backend receives it: every reference followed.\<close>

definition sent_messages :: "pq_state \<Rightarrow> sent" where
  "sent_messages s = map (map_message (store s)) (messages s)"

text \<open>
  A raised exception leaves the function with the state it was raised in, so that what
  was printed before is kept.
\<close>

type_synonym outcome = "(exn \<times> pq_state) + pq_state"

text \<open>
  The body of \<open>for content in response.content\<close>, for the block \<open>content\<close>, with
  \<open>assistant_content\<close> at address \<open>ac\<close>. The test \<open>len(response.content) == 1\<close> of
  the text branch reads the variable \<open>response\<close> as it is then, also after the
  tool branch of an earlier block has assigned it.
\<close>

fun for_body :: "env \<Rightarrow> nat \<Rightarrow> block \<Rightarrow> pq_state \<Rightarrow> outcome" where
  "for_body env ac (Text_block t) s =
     (let s1 = s\<lparr>out := out s @ [Printed t]\<rparr>;
          s2 = s1\<lparr>store := (store s1)(ac := store s1 ac @ [Text_block t])\<rparr>
      in Inr (if length (response s2) = 1 then s2\<lparr>continue := False\<rparr> else s2))"
| "for_body env ac (Tool_use_block tool_id tool_name tool_args) s =
     (let s1 = s\<lparr>store := (store s)(ac := store s ac @ [Tool_use_block tool_id tool_name tool_args])\<rparr>;
          s2 = s1\<lparr>messages := messages s1 @ [Message Assistant (Blocks ac)]\<rparr>;
          s3 = s2\<lparr>out := out s2 @ [Calling_tool tool_name tool_args]\<rparr>
      in case execute_tool env (length (calls s3)) tool_name tool_args of
           Inl e \<Rightarrow> Inl (e, s3)
         | Inr r \<Rightarrow>
             (let s4 = s3\<lparr>messages := messages s3 @ [Message User (Tool_results [Tool_result tool_id r])]\<rparr>;
                  s5 = s4\<lparr>calls := calls s4 @ [sent_messages s4]\<rparr>
              in case messages_create env (length (calls s4)) (sent_messages s4) of
                   Inl e \<Rightarrow> Inl (e, s5)
                 | Inr resp \<Rightarrow>
                     (let s6 = s5\<lparr>response := resp\<rparr>
                      in Inr (case resp of
                                [Text_block t] \<Rightarrow> s6\<lparr>out := out s6 @ [Printed t], continue := False\<rparr>
                              | _ \<Rightarrow> s6))))"
| "for_body env ac (Other_block ty) s = Inr s"

text \<open>
  The \<open>for\<close> loop runs over the list that \<open>response.content\<close> was when the loop
  started, whatever \<open>response\<close> is assigned meanwhile; an exception ends it.
\<close>

fun for_loop :: "env \<Rightarrow> nat \<Rightarrow> block list \<Rightarrow> pq_state \<Rightarrow> outcome" where
  "for_loop env ac [] s = Inr s"
| "for_loop env ac (b # bs) s =
     (case for_body env ac b s of
        Inl x \<Rightarrow> Inl x
      | Inr s' \<Rightarrow> for_loop env ac bs s')"

text \<open>
  \<open>while process_query:\<close> with a bound on the number of rounds: \<open>None\<close> when the
  bound is reached. The loop has no bound of its own; it does not return exactly when
  every bound gives \<open>None\<close>.
\<close>

fun while_loop :: "nat \<Rightarrow> env \<Rightarrow> pq_state \<Rightarrow> outcome option" where
  "while_loop 0 env s = None"
| "while_loop (Suc n) env s =
     (if continue s then
        (let ac = nalloc s;
             s0 = s\<lparr>nalloc := Suc ac, store := (store s)(ac := [])\<rparr>
         in case for_loop env ac (response s0) s0 of
              Inl x \<Rightarrow> Some (Inl x)
            | Inr s' \<Rightarrow> while_loop n env s')
      else Some (Inr s))"

definition initial :: "string \<Rightarrow> pq_state" where
  "initial query =
     \<lparr>messages = [Message User (Str query)], store = (\<lambda>a. []), nalloc = 0,
      response = [], continue = True, out = [], calls = []\<rparr>"

definition process_query :: "nat \<Rightarrow> env \<Rightarrow> string \<Rightarrow> outcome option" where
  "process_query n env query =
     (let s = initial query;
          s1 = s\<lparr>calls := [sent_messages s]\<rparr>
      in case messages_create env 0 (sent_messages s) of
           Inl e \<Rightarrow> Some (Inl (e, s1))
         | Inr resp \<Rightarrow> while_loop n env (s1\<lparr>response := resp\<rparr>))"

subsection \<open>\<open>chat_loop\<close>\<close>

text \<open>
  A character of a string is a code point below 256. On these, \<open>str.strip()\<close> removes
  the white space at both ends, which is the code points 9 to 13, 28 to 32, 133 and 160,
  and \<open>str.lower()\<close> adds 32 to the code points 65 to 90 and 192 to 222 except 215.
\<close>

definition is_space :: "char \<Rightarrow> bool" where
  "is_space c =
     (let n = (of_char c :: nat)
      in (9 \<le> n \<and> n \<le> 13) \<or> (28 \<le> n \<and> n \<le> 32) \<or> n = 133 \<or> n = 160)"

definition py_strip :: "string \<Rightarrow> string" where
  "py_strip s = rev (dropWhile is_space (rev (dropWhile is_space s)))"

definition py_lower :: "string \<Rightarrow> string" where
  "py_lower s =
     map (\<lambda>c. let n = (of_char c :: nat)
              in if (65 \<le> n \<and> n \<le> 90) \<or> (192 \<le> n \<and> n \<le> 222 \<and> n \<noteq> 215)
                 then char_of (n + 32) else c) s"

text \<open>
  \<open>chat_loop\<close> returns (after \<open>break\<close>) with what has been printed, or an exception
  leaves it, with what has been printed until then.
\<close>

type_synonym chat_outcome = "(exn \<times> event list) + event list"

text \<open>
  The \<open>while True\<close> loop of \<open>chat_loop\<close>, with a bound on its rounds (and on those of
  the queries it processes). \<open>inputs\<close> is what the calls of \<open>input\<close> do, one after the
  other: return a line, or raise (\<open>KeyboardInterrupt\<close> when the user interrupts at the
  prompt); when the list is used up, standard input is at its end and \<open>input\<close> raises
  \<open>EOFError\<close>. The handler \<open>except Exception\<close> catches the exceptions of the \<open>try\<close>
  block that are instances of \<open>Exception\<close>, and only those: any other exception leaves
  \<open>chat_loop\<close>. \<open>envs i\<close> is the environment of round \<open>i\<close>.
\<close>

fun chat_rounds :: "nat \<Rightarrow> (nat \<Rightarrow> env) \<Rightarrow> nat \<Rightarrow> (exn + string) list \<Rightarrow> event list \<Rightarrow> chat_outcome option" where
  "chat_rounds 0 envs i inputs printed = None"
| "chat_rounds (Suc n) envs i [] printed =
     chat_rounds n envs (Suc i) [] (printed @ [Prompted, Error_printed EOFError])"
| "chat_rounds (Suc n) envs i (Inl e # rest) printed =
     (if is_Exception e
      then chat_rounds n envs (Suc i) rest (printed @ [Prompted, Error_printed e])
      else Some (Inl (e, printed @ [Prompted])))"
| "chat_rounds (Suc n) envs i (Inr line # rest) printed =
     (let query = py_strip line in
      if py_lower query = ''quit'' then Some (Inr (printed @ [Prompted]))
      else
        (case process_query n (envs i) query of
           None \<Rightarrow> None
         | Some (Inl (e, s)) \<Rightarrow>
             if is_Exception e
             then chat_rounds n envs (Suc i) rest (printed @ [Prompted] @ out s @ [Error_printed e])
             else Some (Inl (e, printed @ [Prompted] @ out s))
         | Some (Inr s) \<Rightarrow>
             chat_rounds n envs (Suc i) rest (printed @ [Prompted] @ out s @ [Printed [CHR 0x0A]])))"

definition banner :: string where
  "banner = ''Type your queries or '' @ [CHR 0x27] @ ''quit'' @ [CHR 0x27] @ '' to exit.''"

definition chat_loop :: "nat \<Rightarrow> (nat \<Rightarrow> env) \<Rightarrow> (exn + string) list \<Rightarrow> chat_outcome option" where
  "chat_loop n envs inputs = chat_rounds n envs 0 inputs [Printed banner]"

subsection \<open>Vocabulary of the statements\<close>

text \<open>
  Of a response, in the order of its blocks: the tool calls (\<open>id\<close>, \<open>name\<close>,
  \<open>input\<close>), the texts, and the events that the \<open>for\<close> loop prints for the blocks
  themselves (the text of a text block, the \<open>Calling tool\<close> line of a tool call).
\<close>

fun tool_uses :: "block list \<Rightarrow> (string \<times> string \<times> args) list" where
  "tool_uses [] = []"
| "tool_uses (Tool_use_block i n a # bs) = (i, n, a) # tool_uses bs"
| "tool_uses (b # bs) = tool_uses bs"

fun text_segments :: "block list \<Rightarrow> string list" where
  "text_segments [] = []"
| "text_segments (Text_block t # bs) = t # text_segments bs"
| "text_segments (b # bs) = text_segments bs"

fun own_events :: "block list \<Rightarrow> event list" where
  "own_events [] = []"
| "own_events (Text_block t # bs) = Printed t # own_events bs"
| "own_events (Tool_use_block i n a # bs) = Calling_tool n a # own_events bs"
| "own_events (Other_block ty # bs) = own_events bs"

fun is_calling :: "event \<Rightarrow> bool" where
  "is_calling (Calling_tool n a) = True"
| "is_calling e = False"

text \<open>
  \<open>executed env c tus rs\<close>: the tool calls \<open>tus\<close>, run one after the other from the
  moment \<open>c\<close> backend calls have been made, return the strings \<open>rs\<close>.
\<close>

fun executed :: "env \<Rightarrow> nat \<Rightarrow> (string \<times> string \<times> args) list \<Rightarrow> string list \<Rightarrow> bool" where
  "executed env c [] [] = True"
| "executed env c ((i, n, a) # tus) (r # rs) =
     (execute_tool env c n a = Inr r \<and> executed env (Suc c) tus rs)"
| "executed env c tus rs = False"

text \<open>
  For each tool call and its result, an assistant message that refers to the list at
  \<open>ac\<close> and a user message with the one \<open>tool_result\<close> entry of that call.
\<close>

fun turns_of :: "nat \<Rightarrow> (string \<times> string \<times> args) list \<Rightarrow> string list \<Rightarrow> nat message list" where
  "turns_of ac ((i, n, a) # tus) (r # rs) =
     Message Assistant (Blocks ac) # Message User (Tool_results [Tool_result i r]) # turns_of ac tus rs"
| "turns_of ac tus rs = []"

text \<open>
  For each tool call of the blocks \<open>bs\<close>, the two messages that end the conversation
  sent to the backend right after it: the assistant message with the text and tool-call
  blocks met so far (after those of \<open>acc\<close>), and the user message with the result.
\<close>

fun sent_tails :: "block list \<Rightarrow> block list \<Rightarrow> string list \<Rightarrow> (block list message \<times> block list message) list" where
  "sent_tails acc [] rs = []"
| "sent_tails acc (Text_block t # bs) rs = sent_tails (acc @ [Text_block t]) bs rs"
| "sent_tails acc (Other_block ty # bs) rs = sent_tails acc bs rs"
| "sent_tails acc (Tool_use_block i n a # bs) [] = []"
| "sent_tails acc (Tool_use_block i n a # bs) (r # rs) =
     (Message Assistant (Blocks (acc @ [Tool_use_block i n a])),
      Message User (Tool_results [Tool_result i r]))
     # sent_tails (acc @ [Tool_use_block i n a]) bs rs"

text \<open>
  What one round of \<open>chat_loop\<close> prints for a query that is not \<open>quit\<close>: the prompt,
  the output of \<open>process_query\<close>, and the error line or the blank line. \<open>caught r\<close>:
  the query returned, or raised an instance of \<open>Exception\<close>.
\<close>

fun caught :: "outcome \<Rightarrow> bool" where
  "caught (Inl (e, s)) = is_Exception e"
| "caught (Inr s) = True"

fun round_output :: "outcome \<Rightarrow> event list" where
  "round_output (Inl (e, s)) = Prompted # out s @ [Error_printed e]"
| "round_output (Inr s) = Prompted # out s @ [Printed [CHR 0x0A]]"


subsection \<open>A scripted environment\<close>

text \<open>
  A backend that answers its calls with the responses of a list, in order, and fails
  when the list is used up; tool functions with a fixed outcome; a serialiser that knows
  the empty dictionary only. The concrete runs below use it.
\<close>

definition scripted :: "block list list \<Rightarrow> exn + pyval \<Rightarrow> exn + pyval \<Rightarrow> env" where
  "scripted responses sp ei =
     \<lparr>search_papers = (\<lambda>c a. sp),
      extract_info = (\<lambda>c a. ei),
      messages_create =
        (\<lambda>c m. case drop c responses of r # rs \<Rightarrow> Inr r | [] \<Rightarrow> Inl (OtherException ''overloaded'')),
      json_dumps = (\<lambda>v. case v of PDict [] \<Rightarrow> Inr ''{}'' | _ \<Rightarrow> Inl TypeError)\<rparr>"

text \<open>Two tool calls and a result of \<open>search_papers\<close>, as the notebook's run shows them.\<close>

definition search_call :: block where
  "search_call = Tool_use_block ''toolu_01'' ''search_papers'' [(''topic'', PStr ''computers'')]"

definition extract_call :: block where
  "extract_call = Tool_use_block ''toolu_02'' ''extract_info'' [(''paper_id'', PStr ''1310.7911v2'')]"

definition paper_ids :: pyval where
  "paper_ids = PList [PStr ''1310.7911v2'', PStr ''2208.00733v1'']"

text \<open>
  The state of \<open>process_query\<close> when the \<open>while\<close> loop is entered: the first backend
  call has been made and has returned \<open>resp\<close>.
\<close>

definition after_first_call :: "string \<Rightarrow> block list \<Rightarrow> pq_state" where
  "after_first_call query resp =
     (initial query)\<lparr>calls := [[Message User (Str query)]], response := resp\<rparr>"

text \<open>A backend whose first response holds two tool calls.\<close>

definition two_calls_env :: env where
  "two_calls_env =
     scripted [[search_call, extract_call], [Text_block ''Now the details.''], [Text_block ''Done.'']]
       (Inr paper_ids) (Inr (PStr ''{}''))"

text \<open>
  A backend that answers the first of two tool calls with two text blocks, and the second
  with one.
\<close>

definition two_calls_two_texts_env :: env where
  "two_calls_two_texts_env =
     scripted [[search_call, extract_call],
               [Text_block ''I found two papers.'', Text_block ''Let me read the first.''],
               [Text_block ''Done.'']]
       (Inr paper_ids) (Inr (PStr ''{}''))"

text \<open>A call of a tool that \<open>mapping_tool_function\<close> does not hold.\<close>

definition unknown_call :: block where
  "unknown_call = Tool_use_block ''toolu_03'' ''get_topic_papers'' [(''topic'', PStr ''computers'')]"


text \<open>Tool functions whose outcome depends on the moment and on the arguments.\<close>

definition clocked_env :: env where
  "clocked_env =
     \<lparr>search_papers = (\<lambda>c a. if c = 1 then Inr paper_ids else Inr (PList [])),
      extract_info = (\<lambda>c a. if a = [] then Inl TypeError else Inr paper_ids),
      messages_create = (\<lambda>c m. Inr []),
      json_dumps = (\<lambda>v. Inl TypeError)\<rparr>"

text \<open>A backend that fails at once.\<close>

definition overloaded_env :: env where
  "overloaded_env = scripted [] (Inr PNone) (Inr PNone)"

text \<open>The user interrupts the program while the backend call is pending.\<close>

definition interrupted_env :: env where
  "interrupted_env =
     \<lparr>search_papers = (\<lambda>c a. Inr PNone),
      extract_info = (\<lambda>c a. Inr PNone),
      messages_create = (\<lambda>c m. Inl KeyboardInterrupt),
      json_dumps = (\<lambda>v. Inl TypeError)\<rparr>"

section \<open>The \<open>for\<close> loop, block by block\<close>

lemma for_loop_append:
  "for_loop env ac (xs @ ys) s =
     (case for_loop env ac xs s of Inl x \<Rightarrow> Inl x | Inr s1 \<Rightarrow> for_loop env ac ys s1)"
  by (induction xs arbitrary: s) (auto split: sum.splits)

lemma for_body_text:
  "\<exists>s'. for_body env ac (Text_block t) s = Inr s' \<and> messages s' = messages s \<and>
        calls s' = calls s \<and> out s' = out s @ [Printed t] \<and>
        store s' = (store s)(ac := store s ac @ [Text_block t])"
  by (simp add: Let_def)

lemma for_body_tool_Inr:
  assumes "for_body env ac (Tool_use_block i n a) s = Inr s'"
  shows "\<exists>r extra. execute_tool env (length (calls s)) n a = Inr r \<and>
           messages s' = messages s @ [Message Assistant (Blocks ac), Message User (Tool_results [Tool_result i r])] \<and>
           store s' = (store s)(ac := store s ac @ [Tool_use_block i n a]) \<and>
           calls s' = calls s @ [map (map_message (store s')) (messages s')] \<and>
           out s' = out s @ Calling_tool n a # extra \<and> filter is_calling extra = []"
  using assms
  by (auto simp: Let_def sent_messages_def split: sum.splits list.splits block.splits)

lemma for_body_raises:
  "execute_tool env (length (calls s)) n a = Inl e \<Longrightarrow>
   \<exists>s'. for_body env ac (Tool_use_block i n a) s = Inl (e, s') \<and>
        messages s' = messages s @ [Message Assistant (Blocks ac)] \<and>
        calls s' = calls s \<and> out s' = out s @ [Calling_tool n a]"
  by (simp add: Let_def)



text \<open>
  A pass of the \<open>for\<close> loop over blocks without a tool call prints the texts and
  changes neither \<open>response\<close> nor \<open>messages\<close>; it clears \<open>continue\<close> exactly when
  there is a text among the blocks and \<open>response\<close> has one block.
\<close>

lemma for_loop_no_tools:
  "tool_uses bs = [] \<Longrightarrow>
   \<exists>s'. for_loop env ac bs s = Inr s' \<and> response s' = response s \<and>
        messages s' = messages s \<and> calls s' = calls s \<and> nalloc s' = nalloc s \<and>
        out s' = out s @ map Printed (text_segments bs) \<and>
        continue s' = (continue s \<and> (length (response s) \<noteq> 1 \<or> text_segments bs = []))"
proof (induction bs arbitrary: s)
  case Nil
  then show ?case by simp
next
  case (Cons b bs)
  show ?case
  proof (cases b)
    case (Text_block t)
    with Cons.prems have tl: "tool_uses bs = []" by simp
    obtain s1 where s1: "for_body env ac b s = Inr s1" "response s1 = response s"
      "messages s1 = messages s" "calls s1 = calls s" "nalloc s1 = nalloc s"
      "out s1 = out s @ [Printed t]" "continue s1 = (continue s \<and> length (response s) \<noteq> 1)"
      using Text_block by (simp add: Let_def)
    from Cons.IH [OF tl, of s1] s1 Text_block show ?thesis
      by auto
  next
    case (Tool_use_block i n a)
    with Cons.prems show ?thesis by simp
  next
    case (Other_block ty)
    with Cons.prems have tl: "tool_uses bs = []" by simp
    show ?thesis
      using Cons.IH [OF tl, of s] Other_block by simp
  qed
qed

text \<open>What a block prints, and what a pass prints.\<close>

lemma own_events_Cons: "own_events (b # bs) = own_events [b] @ own_events bs"
  by (cases b) simp_all

lemma for_body_out_Inr:
  assumes "for_body env ac b s = Inr s'"
  shows "\<exists>extra. out s' = out s @ own_events [b] @ extra \<and> filter is_calling extra = [] \<and>
           (tool_uses [b] = [] \<longrightarrow> extra = [])"
proof (cases b)
  case (Text_block t)
  with assms show ?thesis by (auto simp: Let_def split: if_splits)
next
  case (Tool_use_block i n a)
  with assms show ?thesis
    by (auto simp: Let_def split: sum.splits list.splits block.splits)
next
  case (Other_block ty)
  with assms show ?thesis by simp
qed

lemma for_body_out_Inl:
  assumes "for_body env ac b s = Inl (e, s')"
  shows "out s' = out s @ own_events [b]"
  using assms
  by (cases b) (auto simp: Let_def split: sum.splits)

lemma for_loop_out_Inr:
  "for_loop env ac bs s = Inr s' \<Longrightarrow>
   \<exists>new. out s' = out s @ new \<and> subseq (own_events bs) new \<and>
     filter is_calling new = filter is_calling (own_events bs) \<and>
     (tool_uses bs = [] \<longrightarrow> new = own_events bs)"
proof (induction bs arbitrary: s)
  case Nil
  then show ?case by simp
next
  case (Cons b bs)
  from Cons.prems obtain s1 where b: "for_body env ac b s = Inr s1"
    and rest: "for_loop env ac bs s1 = Inr s'"
    by (auto split: sum.splits)
  from for_body_out_Inr [OF b] obtain extra where ex:
    "out s1 = out s @ own_events [b] @ extra" "filter is_calling extra = []"
    "tool_uses [b] = [] \<longrightarrow> extra = []"
    by blast
  from Cons.IH [OF rest] obtain new where ih:
    "out s' = out s1 @ new" "subseq (own_events bs) new"
    "filter is_calling new = filter is_calling (own_events bs)"
    "tool_uses bs = [] \<longrightarrow> new = own_events bs"
    by blast
  let ?new = "own_events [b] @ extra @ new"
  have "out s' = out s @ ?new" using ex(1) ih(1) by simp
  moreover have "subseq (own_events (b # bs)) ?new"
    unfolding own_events_Cons [of b bs]
    by (intro list_emb_append_mono subseq_order.order_refl list_emb_append2 ih(2))
  moreover have "filter is_calling ?new = filter is_calling (own_events (b # bs))"
    unfolding own_events_Cons [of b bs] using ex(2) ih(3) by simp
  moreover have "tool_uses (b # bs) = [] \<longrightarrow> ?new = own_events (b # bs)"
    unfolding own_events_Cons [of b bs] using ex(3) ih(4) by (cases b) auto
  ultimately show ?case by blast
qed

lemma for_loop_out_Inl:
  "for_loop env ac bs s = Inl (e, s') \<Longrightarrow>
   \<exists>new pre. prefix pre bs \<and> out s' = out s @ new \<and> subseq (own_events pre) new \<and>
     filter is_calling new = filter is_calling (own_events pre)"
proof (induction bs arbitrary: s)
  case Nil
  then show ?case by simp
next
  case (Cons b bs)
  show ?case
  proof (cases "for_body env ac b s")
    case (Inl x)
    with Cons.prems have "for_body env ac b s = Inl (e, s')" by simp
    from for_body_out_Inl [OF this] have "out s' = out s @ own_events [b]" .
    then have "prefix [b] (b # bs) \<and> out s' = out s @ own_events [b] \<and>
        subseq (own_events [b]) (own_events [b]) \<and>
        filter is_calling (own_events [b]) = filter is_calling (own_events [b])"
      by simp
    then show ?thesis by blast
  next
    case (Inr s1)
    with Cons.prems have rest: "for_loop env ac bs s1 = Inl (e, s')" by simp
    from for_body_out_Inr [OF Inr] obtain extra where ex:
      "out s1 = out s @ own_events [b] @ extra" "filter is_calling extra = []"
      by blast
    from Cons.IH [OF rest] obtain new pre where ih:
      "prefix pre bs" "out s' = out s1 @ new" "subseq (own_events pre) new"
      "filter is_calling new = filter is_calling (own_events pre)"
      by blast
    let ?new = "own_events [b] @ extra @ new"
    have "prefix (b # pre) (b # bs)" using ih(1) by simp
    moreover have "out s' = out s @ ?new" using ex(1) ih(2) by simp
    moreover have "subseq (own_events (b # pre)) ?new"
      unfolding own_events_Cons [of b pre]
      by (intro list_emb_append_mono subseq_order.order_refl list_emb_append2 ih(3))
    moreover have "filter is_calling ?new = filter is_calling (own_events (b # pre))"
      unfolding own_events_Cons [of b pre] using ex(2) ih(4) by simp
    ultimately show ?thesis by blast
  qed
qed

section \<open>The \<open>while\<close> loop\<close>

lemma while_loop_empty:
  "continue s \<Longrightarrow> response s = [] \<Longrightarrow> while_loop n env s = None"
  by (induction n arbitrary: s) simp_all






lemma while_loop_mono:
  "while_loop n env s = Some r \<Longrightarrow> while_loop (n + k) env s = Some r"
proof (induction n arbitrary: s)
  case 0
  then show ?case by simp
next
  case (Suc n)
  then show ?case
    by (auto simp: Let_def split: if_splits sum.splits)
qed

lemma process_query_mono:
  "process_query n env query = Some r \<Longrightarrow> process_query (n + k) env query = Some r"
  by (auto simp: process_query_def Let_def while_loop_mono split: sum.splits)

section \<open>Exceptions of a tool call\<close>

lemma execute_tool_unregistered:
  "tool_name \<noteq> ''search_papers'' \<Longrightarrow> tool_name \<noteq> ''extract_info'' \<Longrightarrow>
   execute_tool env c tool_name tool_args = Inl (KeyError tool_name)"
  by (simp add: execute_tool_def mapping_tool_function_def)


text \<open>
  In any round of the \<open>while\<close> loop: when the pass reaches a tool call that raises, the
  loop ends with that exception.
\<close>

lemma while_loop_raises:
  assumes "continue s" and "response s = pre @ Tool_use_block i n a # post"
    and "for_loop env (nalloc s) pre
           (s\<lparr>nalloc := Suc (nalloc s), store := (store s)(nalloc s := [])\<rparr>) = Inr s1"
    and "execute_tool env (length (calls s1)) n a = Inl e"
  shows "\<exists>s'. while_loop (Suc m) env s = Some (Inl (e, s'))"
proof -
  let ?fresh = "s\<lparr>nalloc := Suc (nalloc s), store := (store s)(nalloc s := [])\<rparr>"
  from for_body_raises [OF assms(4), of "nalloc s" i]
  obtain s' where "for_body env (nalloc s) (Tool_use_block i n a) s1 = Inl (e, s')" by blast
  with assms(3) have "for_loop env (nalloc s) (pre @ Tool_use_block i n a # post) ?fresh = Inl (e, s')"
    by (simp add: for_loop_append)
  with assms(1,2) have "while_loop (Suc m) env s = Some (Inl (e, s'))"
    by (simp add: Let_def)
  then show ?thesis ..
qed

text \<open>
  The first tool call of the first response raises: \<open>process_query\<close> ends with that
  exception, after the texts before the call and the \<open>Calling tool\<close> line, with the
  assistant message appended, no tool result, and no second backend call.
\<close>

lemma process_query_first_tool_raises:
  assumes first: "messages_create env 0 [Message User (Str query)] = Inr (pre @ Tool_use_block i n a # post)"
    and pre: "tool_uses pre = []"
    and ex: "execute_tool env 1 n a = Inl e"
  shows "\<exists>s. process_query (Suc m) env query = Some (Inl (e, s)) \<and>
           out s = map Printed (text_segments pre) @ [Calling_tool n a] \<and>
           messages s = [Message User (Str query), Message Assistant (Blocks 0)] \<and>
           calls s = [[Message User (Str query)]]"
proof -
  let ?resp = "pre @ Tool_use_block i n a # post"
  let ?s = "(initial query)\<lparr>calls := [[Message User (Str query)]], response := ?resp\<rparr>"
  let ?fresh = "?s\<lparr>nalloc := Suc 0, store := (store ?s)(0 := [])\<rparr>"
  have pq: "process_query (Suc m) env query = while_loop (Suc m) env ?s"
    using first by (simp add: process_query_def initial_def sent_messages_def)
  from for_loop_no_tools [OF pre, of env 0 ?fresh]
  obtain s1 where s1: "for_loop env 0 pre ?fresh = Inr s1" "messages s1 = messages ?fresh"
    "calls s1 = calls ?fresh" "out s1 = out ?fresh @ map Printed (text_segments pre)"
    by blast
  have "execute_tool env (length (calls s1)) n a = Inl e"
    using ex s1(3) by (simp add: initial_def)
  from for_body_raises [OF this, of 0 i]
  obtain s2 where s2: "for_body env 0 (Tool_use_block i n a) s1 = Inl (e, s2)"
    "messages s2 = messages s1 @ [Message Assistant (Blocks 0)]"
    "calls s2 = calls s1" "out s2 = out s1 @ [Calling_tool n a]"
    by blast
  have "for_loop env 0 ?resp ?fresh = Inl (e, s2)"
    using s1(1) s2(1) by (simp add: for_loop_append)
  then have "while_loop (Suc m) env ?s = Some (Inl (e, s2))"
    by (simp add: initial_def Let_def)
  moreover have "out s2 = map Printed (text_segments pre) @ [Calling_tool n a]"
    using s1 s2 by (simp add: initial_def)
  moreover have "messages s2 = [Message User (Str query), Message Assistant (Blocks 0)]"
    using s1 s2 by (simp add: initial_def)
  moreover have "calls s2 = [[Message User (Str query)]]"
    using s1 s2 by (simp add: initial_def)
  ultimately show ?thesis using pq by simp
qed

section \<open>The rounds of the chat loop\<close>

lemma chat_rounds_quit_only:
  "chat_rounds n envs i inputs printed = Some (Inr printed') \<Longrightarrow>
   \<exists>pre line rest. inputs = pre @ Inr line # rest \<and> py_lower (py_strip line) = ''quit'' \<and>
     (\<forall>l. Inr l \<in> set pre \<longrightarrow> py_lower (py_strip l) \<noteq> ''quit'')"
proof (induction n envs i inputs printed rule: chat_rounds.induct)
  case (1 envs i inputs printed)
  then show ?case by simp
next
  case (2 n envs i printed)
  then show ?case by simp
next
  case (3 n envs i e rest printed)
  from "3.prems" have exc: "is_Exception e"
    and run: "chat_rounds n envs (Suc i) rest (printed @ [Prompted, Error_printed e]) = Some (Inr printed')"
    by (auto split: if_splits)
  from "3.IH" [OF exc run] obtain pre l r where "rest = pre @ Inr l # r"
    "py_lower (py_strip l) = ''quit''" "\<forall>x. Inr x \<in> set pre \<longrightarrow> py_lower (py_strip x) \<noteq> ''quit''"
    by blast
  then have "Inl e # rest = (Inl e # pre) @ Inr l # r \<and> py_lower (py_strip l) = ''quit'' \<and>
       (\<forall>x. Inr x \<in> set (Inl e # pre) \<longrightarrow> py_lower (py_strip x) \<noteq> ''quit'')" by simp
  then show ?case by blast
next
  case (4 n envs i line rest printed)
  show ?case
  proof (cases "py_lower (py_strip line) = ''quit''")
    case True
    then have "Inr line # rest = [] @ Inr line # rest \<and> py_lower (py_strip line) = ''quit'' \<and>
      (\<forall>l. Inr l \<in> set [] \<longrightarrow> py_lower (py_strip l) \<noteq> ''quit'')" by simp
    then show ?thesis by blast
  next
    case False
    have "\<exists>pre l r. rest = pre @ Inr l # r \<and> py_lower (py_strip l) = ''quit'' \<and>
       (\<forall>x. Inr x \<in> set pre \<longrightarrow> py_lower (py_strip x) \<noteq> ''quit'')"
      using "4.prems" False "4.IH"
      by (auto simp: Let_def split: option.splits sum.splits if_splits)
    then obtain pre l r where "rest = pre @ Inr l # r" "py_lower (py_strip l) = ''quit''"
       "\<forall>x. Inr x \<in> set pre \<longrightarrow> py_lower (py_strip x) \<noteq> ''quit''" by blast
    with False have "Inr line # rest = (Inr line # pre) @ Inr l # r \<and> py_lower (py_strip l) = ''quit'' \<and>
       (\<forall>x. Inr x \<in> set (Inr line # pre) \<longrightarrow> py_lower (py_strip x) \<noteq> ''quit'')" by simp
    then show ?thesis by blast
  qed
qed

lemma chat_rounds_uncaught:
  "chat_rounds n envs i inputs printed = Some (Inl (e, printed')) \<Longrightarrow> \<not> is_Exception e"
proof (induction n envs i inputs printed rule: chat_rounds.induct)
  case (1 envs i inputs printed)
  then show ?case by simp
next
  case (2 n envs i printed)
  then show ?case by simp
next
  case (3 n envs i e' rest printed)
  then show ?case by (auto split: if_splits)
next
  case (4 n envs i line rest printed)
  show ?case
  proof (cases "py_lower (py_strip line) = ''quit''")
    case True
    with "4.prems" show ?thesis by (simp add: Let_def)
  next
    case False
    show ?thesis
    proof (cases "process_query n (envs i) (py_strip line)")
      case None
      with "4.prems" False show ?thesis by (simp add: Let_def)
    next
      case (Some r)
      show ?thesis
      proof (cases r)
        case (Inl x)
        obtain e' s where x: "x = (e', s)" by (cases x)
        show ?thesis
        proof (cases "is_Exception e'")
          case True
          with "4.prems" False Some Inl x
          have "chat_rounds n envs (Suc i) rest (printed @ [Prompted] @ out s @ [Error_printed e']) =
              Some (Inl (e, printed'))"
            by (simp add: Let_def)
          from "4.IH"(1) [OF refl False Some Inl x [symmetric] True this]
          show ?thesis .
        next
          case no: False
          with "4.prems" False Some Inl x show ?thesis by (simp add: Let_def)
        qed
      next
        case (Inr s)
        with "4.prems" False Some
        have "chat_rounds n envs (Suc i) rest (printed @ [Prompted] @ out s @ [Printed [CHR 0x0A]]) =
            Some (Inl (e, printed'))"
          by (simp add: Let_def)
        from "4.IH"(2) [OF refl False Some Inr this]
        show ?thesis .
      qed
    qed
  qed
qed

lemma chat_rounds_step:
  assumes "py_lower (py_strip line) \<noteq> ''quit''"
    and "process_query n (envs i) (py_strip line) = Some r" and "caught r"
  shows "chat_rounds (Suc n) envs i (Inr line # rest) printed =
         chat_rounds n envs (Suc i) rest (printed @ round_output r)"
  using assms by (cases r) (auto simp: Let_def)

lemma chat_rounds_propagates:
  assumes "py_lower (py_strip line) \<noteq> ''quit''"
    and "process_query n (envs i) (py_strip line) = Some (Inl (e, s))" and "\<not> is_Exception e"
  shows "chat_rounds (Suc n) envs i (Inr line # rest) printed =
         Some (Inl (e, printed @ Prompted # out s))"
  using assms by (simp add: Let_def)

lemma chat_rounds_reaches_quit:
  assumes "length rs = length pre"
    and "\<forall>j<length pre. py_lower (py_strip (pre ! j)) \<noteq> ''quit'' \<and>
           process_query m (envs (i + j)) (py_strip (pre ! j)) = Some (rs ! j) \<and> caught (rs ! j)"
    and "py_lower (py_strip line) = ''quit''"
  shows "chat_rounds (Suc (m + length pre)) envs i (map Inr pre @ Inr line # rest) printed =
         Some (Inr (printed @ concat (map round_output rs) @ [Prompted]))"
  using assms
proof (induction pre arbitrary: rs i printed)
  case Nil
  then show ?case by (simp add: Let_def)
next
  case (Cons l pre)
  from Cons.prems(1) obtain r rs' where rs: "rs = r # rs'" and len: "length rs' = length pre"
    by (cases rs) auto
  from Cons.prems(2) have hd: "py_lower (py_strip l) \<noteq> ''quit''"
    "process_query m (envs i) (py_strip l) = Some r" "caught r"
    using rs by auto
  have tl: "\<forall>j<length pre. py_lower (py_strip (pre ! j)) \<noteq> ''quit'' \<and>
           process_query m (envs (Suc i + j)) (py_strip (pre ! j)) = Some (rs' ! j) \<and> caught (rs' ! j)"
  proof (intro allI impI)
    fix j assume "j < length pre"
    then have "Suc j < length (l # pre)" by simp
    with Cons.prems(2) have "py_lower (py_strip ((l # pre) ! Suc j)) \<noteq> ''quit'' \<and>
           process_query m (envs (i + Suc j)) (py_strip ((l # pre) ! Suc j)) = Some (rs ! Suc j) \<and>
           caught (rs ! Suc j)"
      by blast
    then show "py_lower (py_strip (pre ! j)) \<noteq> ''quit'' \<and>
           process_query m (envs (Suc i + j)) (py_strip (pre ! j)) = Some (rs' ! j) \<and> caught (rs' ! j)"
      using rs by simp
  qed
  from process_query_mono [OF hd(2), of "Suc (length pre)"]
  have big: "process_query (Suc (m + length pre)) (envs i) (py_strip l) = Some r" by simp
  have "chat_rounds (Suc (m + length (l # pre))) envs i (map Inr (l # pre) @ Inr line # rest) printed =
        chat_rounds (Suc (m + length pre)) envs (Suc i) (map Inr pre @ Inr line # rest) (printed @ round_output r)"
    using chat_rounds_step [where line = l and n = "Suc (m + length pre)" and envs = envs and i = i
        and r = r and rest = "map Inr pre @ Inr line # rest" and printed = printed] hd(1) big hd(3)
    by simp
  also have "\<dots> = Some (Inr ((printed @ round_output r) @ concat (map round_output rs') @ [Prompted]))"
    by (rule Cons.IH [OF len tl Cons.prems(3)])
  finally show ?case using rs by simp
qed

section \<open>C1: the turns appended for the tool calls of a response\<close>

lemma executed_Nil [simp]: "executed env c [] rs = (rs = [])"
  by (cases rs) simp_all

text \<open>
  C1, as amended. In a pass of the \<open>for\<close> loop over a response that runs to its end,
  every tool call of the response is executed, in the order of the blocks, and for each
  one the loop appends one assistant message and one user message with exactly one
  \<open>tool_result\<close>, which carries the \<open>id\<close> of that call and its result, and then calls
  the backend, before it turns to the next block. So a response with \<open>N\<close> tool calls
  gives \<open>N\<close> assistant messages, \<open>N\<close> tool-result messages of one entry each and
  \<open>N\<close> backend calls. The conversation sent by the call that follows a tool call ends
  with an assistant message that holds the text and tool-call blocks of the response up to
  and including that call, and with the tool-result message of that call.
\<close>

theorem for_loop_tool_turns:
  "for_loop env ac bs s = Inr s' \<Longrightarrow>
   \<exists>rs new. executed env (length (calls s)) (tool_uses bs) rs \<and>
     messages s' = messages s @ turns_of ac (tool_uses bs) rs \<and>
     calls s' = calls s @ new \<and> length new = length (tool_uses bs) \<and>
     map (\<lambda>snt. (last (butlast snt), last snt)) new = sent_tails (store s ac) bs rs"
proof (induction bs arbitrary: s)
  case Nil
  then show ?case by simp
next
  case (Cons b bs)
  from Cons.prems obtain s1 where b: "for_body env ac b s = Inr s1"
    and rest: "for_loop env ac bs s1 = Inr s'"
    by (auto split: sum.splits)
  from Cons.IH [OF rest] obtain rs new where ih:
    "executed env (length (calls s1)) (tool_uses bs) rs"
    "messages s' = messages s1 @ turns_of ac (tool_uses bs) rs"
    "calls s' = calls s1 @ new" "length new = length (tool_uses bs)"
    "map (\<lambda>snt. (last (butlast snt), last snt)) new = sent_tails (store s1 ac) bs rs"
    by blast
  show ?case
  proof (cases b)
    case (Text_block t)
    with b for_body_text [of env ac t s]
    have "messages s1 = messages s" "calls s1 = calls s"
      "store s1 ac = store s ac @ [Text_block t]"
      by auto
    with ih Text_block show ?thesis by auto
  next
    case (Other_block ty)
    with b have "s1 = s" by simp
    with ih Other_block show ?thesis by auto
  next
    case (Tool_use_block i n a)
    with b for_body_tool_Inr [of env ac i n a s s1]
    obtain r where r: "execute_tool env (length (calls s)) n a = Inr r"
      and m: "messages s1 = messages s @ [Message Assistant (Blocks ac), Message User (Tool_results [Tool_result i r])]"
      and st: "store s1 = (store s)(ac := store s ac @ [Tool_use_block i n a])"
      and c: "calls s1 = calls s @ [map (map_message (store s1)) (messages s1)]"
      by blast
    let ?snt = "map (map_message (store s1)) (messages s1)"
    have pair: "(last (butlast ?snt), last ?snt) =
        (Message Assistant (Blocks (store s ac @ [Tool_use_block i n a])),
         Message User (Tool_results [Tool_result i r]))"
      unfolding m by (simp add: butlast_append st)
    have "executed env (length (calls s)) (tool_uses (b # bs)) (r # rs)"
      using r ih(1) c Tool_use_block by simp
    moreover have "messages s' = messages s @ turns_of ac (tool_uses (b # bs)) (r # rs)"
      using ih(2) m Tool_use_block by simp
    moreover have "calls s' = calls s @ (?snt # new)"
      using ih(3) c by simp
    moreover have "length (?snt # new) = length (tool_uses (b # bs))"
      using ih(4) Tool_use_block by simp
    moreover have "map (\<lambda>snt. (last (butlast snt), last snt)) (?snt # new) =
        sent_tails (store s ac) (b # bs) (r # rs)"
      using ih(5) pair st Tool_use_block by simp
    ultimately show ?thesis by blast
  qed
qed

theorem for_loop_tool_turns_witness:
  "\<exists>s' new.
     for_loop two_calls_env 0 [search_call, extract_call]
       (after_first_call ''search computers'' [search_call, extract_call]) = Inr s' \<and>
     messages s' =
       [Message User (Str ''search computers''),
        Message Assistant (Blocks 0),
        Message User (Tool_results [Tool_result ''toolu_01'' ''1310.7911v2, 2208.00733v1'']),
        Message Assistant (Blocks 0),
        Message User (Tool_results [Tool_result ''toolu_02'' ''{}''])] \<and>
     calls s' = [Message User (Str ''search computers'')] # new \<and> length new = 2"
proof -
  let ?s = "after_first_call ''search computers'' [search_call, extract_call]"
  obtain s' where run: "for_loop two_calls_env 0 [search_call, extract_call] ?s = Inr s'"
    by (simp add: two_calls_env_def after_first_call_def initial_def scripted_def search_call_def
        extract_call_def paper_ids_def execute_tool_def mapping_tool_function_def py_join_def
        sent_messages_def Let_def)
  from for_loop_tool_turns [OF run] obtain rs new where
    ex: "executed two_calls_env (length (calls ?s)) (tool_uses [search_call, extract_call]) rs"
    and m: "messages s' = messages ?s @ turns_of 0 (tool_uses [search_call, extract_call]) rs"
    and c: "calls s' = calls ?s @ new" "length new = length (tool_uses [search_call, extract_call])"
    by blast
  from ex have rs: "rs = [''1310.7911v2, 2208.00733v1'', ''{}'']"
    by (cases rs; cases "tl rs"; cases "tl (tl rs)")
      (auto simp: two_calls_env_def scripted_def search_call_def extract_call_def paper_ids_def
        execute_tool_def mapping_tool_function_def py_join_def)
  from m c rs run show ?thesis
    by (simp add: after_first_call_def initial_def search_call_def extract_call_def)
qed

text \<open>
  C1 as it stands fails on a response with two tool calls: \<open>process_query\<close> appends
  two assistant messages and two tool-result messages of one entry each, and the backend
  is called between the two tool calls, with the result of the first one only.
\<close>

theorem two_tool_calls_two_result_turns:
  "\<exists>s. process_query 2 two_calls_env ''search computers'' = Some (Inr s) \<and>
     messages s =
       [Message User (Str ''search computers''),
        Message Assistant (Blocks 0),
        Message User (Tool_results [Tool_result ''toolu_01'' ''1310.7911v2, 2208.00733v1'']),
        Message Assistant (Blocks 0),
        Message User (Tool_results [Tool_result ''toolu_02'' ''{}''])] \<and>
     calls s =
       [[Message User (Str ''search computers'')],
        [Message User (Str ''search computers''),
         Message Assistant (Blocks [search_call]),
         Message User (Tool_results [Tool_result ''toolu_01'' ''1310.7911v2, 2208.00733v1''])],
        [Message User (Str ''search computers''),
         Message Assistant (Blocks [search_call, extract_call]),
         Message User (Tool_results [Tool_result ''toolu_01'' ''1310.7911v2, 2208.00733v1'']),
         Message Assistant (Blocks [search_call, extract_call]),
         Message User (Tool_results [Tool_result ''toolu_02'' ''{}''])]]"
  by (simp add: process_query_def two_calls_env_def initial_def scripted_def search_call_def
        extract_call_def paper_ids_def execute_tool_def mapping_tool_function_def py_join_def
        sent_messages_def Let_def numeral_2_eq_2)

section \<open>C2: a tool name that is not registered\<close>

text \<open>
  C2, as amended. For a tool call whose name is not a key of \<open>mapping_tool_function\<close>,
  \<open>execute_tool\<close> raises \<open>KeyError\<close> with that name and returns no string. The
  exception leaves the loop body (the assistant message has been appended, no tool result
  is, and the backend is not called), it ends the \<open>while\<close> loop in whatever round
  the pass reaches the call, and it leaves \<open>process_query\<close>: the processing of the
  query ends there (shown in full for the first tool call of the first response).
\<close>

theorem unregistered_tool_raises:
  assumes "tool_name \<noteq> ''search_papers''" and "tool_name \<noteq> ''extract_info''"
  shows "execute_tool env c tool_name tool_args = Inl (KeyError tool_name) \<and>
         (\<forall>ac s. \<exists>s'. for_body env ac (Tool_use_block i tool_name tool_args) s = Inl (KeyError tool_name, s') \<and>
            messages s' = messages s @ [Message Assistant (Blocks ac)] \<and> calls s' = calls s) \<and>
         (\<forall>s pre post s1 m.
            continue s \<and> response s = pre @ Tool_use_block i tool_name tool_args # post \<and>
            for_loop env (nalloc s) pre
              (s\<lparr>nalloc := Suc (nalloc s), store := (store s)(nalloc s := [])\<rparr>) = Inr s1 \<longrightarrow>
            (\<exists>s'. while_loop (Suc m) env s = Some (Inl (KeyError tool_name, s')))) \<and>
         (\<forall>pre post query m.
            messages_create env 0 [Message User (Str query)] = Inr (pre @ Tool_use_block i tool_name tool_args # post) \<and>
            tool_uses pre = [] \<longrightarrow>
            (\<exists>s. process_query (Suc m) env query = Some (Inl (KeyError tool_name, s)) \<and>
                 out s = map Printed (text_segments pre) @ [Calling_tool tool_name tool_args] \<and>
                 calls s = [[Message User (Str query)]]))"
proof -
  have ex: "execute_tool env c tool_name tool_args = Inl (KeyError tool_name)" for c
    using assms by (rule execute_tool_unregistered)
  have body: "\<exists>s'. for_body env ac (Tool_use_block i tool_name tool_args) s = Inl (KeyError tool_name, s') \<and>
            messages s' = messages s @ [Message Assistant (Blocks ac)] \<and> calls s' = calls s" for ac s
    using for_body_raises [where s = s and ac = ac and i = i, OF ex] by blast
  have loop: "\<exists>s'. while_loop (Suc m) env s = Some (Inl (KeyError tool_name, s'))"
    if "continue s" "response s = pre @ Tool_use_block i tool_name tool_args # post"
      "for_loop env (nalloc s) pre
         (s\<lparr>nalloc := Suc (nalloc s), store := (store s)(nalloc s := [])\<rparr>) = Inr s1"
    for s pre post s1 m
    using that ex by (rule while_loop_raises)
  have run: "\<exists>s. process_query (Suc m) env query = Some (Inl (KeyError tool_name, s)) \<and>
                 out s = map Printed (text_segments pre) @ [Calling_tool tool_name tool_args] \<and>
                 calls s = [[Message User (Str query)]]"
    if "messages_create env 0 [Message User (Str query)] = Inr (pre @ Tool_use_block i tool_name tool_args # post)"
      and "tool_uses pre = []" for pre post query m
    using process_query_first_tool_raises [where m = m, OF that ex] by blast
  show ?thesis
  proof (intro conjI allI impI)
    show "execute_tool env c tool_name tool_args = Inl (KeyError tool_name)" by (rule ex)
  next
    fix ac s
    show "\<exists>s'. for_body env ac (Tool_use_block i tool_name tool_args) s = Inl (KeyError tool_name, s') \<and>
            messages s' = messages s @ [Message Assistant (Blocks ac)] \<and> calls s' = calls s"
      by (rule body)
  next
    fix s pre post s1 m
    assume "continue s \<and> response s = pre @ Tool_use_block i tool_name tool_args # post \<and>
            for_loop env (nalloc s) pre
              (s\<lparr>nalloc := Suc (nalloc s), store := (store s)(nalloc s := [])\<rparr>) = Inr s1"
    then show "\<exists>s'. while_loop (Suc m) env s = Some (Inl (KeyError tool_name, s'))"
      using loop by blast
  next
    fix pre post query m
    assume "messages_create env 0 [Message User (Str query)] = Inr (pre @ Tool_use_block i tool_name tool_args # post) \<and>
            tool_uses pre = []"
    then show "\<exists>s. process_query (Suc m) env query = Some (Inl (KeyError tool_name, s)) \<and>
                 out s = map Printed (text_segments pre) @ [Calling_tool tool_name tool_args] \<and>
                 calls s = [[Message User (Str query)]]"
      using run by blast
  qed
qed

theorem unregistered_tool_raises_witness:
  "execute_tool (scripted [[Text_block ''I will list them.'', unknown_call]] (Inr paper_ids) (Inr PNone)) 1
      ''get_topic_papers'' [(''topic'', PStr ''computers'')] = Inl (KeyError ''get_topic_papers'') \<and>
   (\<exists>s. process_query 1 (scripted [[Text_block ''I will list them.'', unknown_call]] (Inr paper_ids) (Inr PNone))
          ''list the papers'' = Some (Inl (KeyError ''get_topic_papers'', s)) \<and>
        out s = [Printed ''I will list them.'', Calling_tool ''get_topic_papers'' [(''topic'', PStr ''computers'')]] \<and>
        calls s = [[Message User (Str ''list the papers'')]])"
proof -
  let ?env = "scripted [[Text_block ''I will list them.'', unknown_call]] (Inr paper_ids) (Inr PNone)"
  let ?args = "[(''topic'', PStr ''computers'')]"
  have a: "''get_topic_papers'' \<noteq> ''search_papers''" and b: "''get_topic_papers'' \<noteq> ''extract_info''"
    by simp_all
  have first: "messages_create ?env 0 [Message User (Str ''list the papers'')] =
      Inr ([Text_block ''I will list them.''] @
           Tool_use_block ''toolu_03'' ''get_topic_papers'' ?args # [])"
    by (simp add: scripted_def unknown_call_def)
  have pre: "tool_uses [Text_block ''I will list them.''] = []" by simp
  note inst = unregistered_tool_raises [OF a b, where env = ?env and c = 1 and tool_args = ?args
      and i = "''toolu_03''"]
  from inst [THEN conjunct1]
  have ex: "execute_tool ?env 1 ''get_topic_papers'' ?args = Inl (KeyError ''get_topic_papers'')" .
  from inst [THEN conjunct2, THEN conjunct2, THEN conjunct2, THEN spec, THEN spec, THEN spec, THEN spec,
      where x3 = "[Text_block ''I will list them.'']" and x2 = "[]" and x1 = "''list the papers''" and x = 0]
    first pre
  have "\<exists>s. process_query (Suc 0) ?env ''list the papers'' = Some (Inl (KeyError ''get_topic_papers'', s)) \<and>
        out s = map Printed (text_segments [Text_block ''I will list them.'']) @ [Calling_tool ''get_topic_papers'' ?args] \<and>
        calls s = [[Message User (Str ''list the papers'')]]"
    by (elim impE) (intro conjI)
  with ex show ?thesis by simp
qed

text \<open>
  C2 as it stands fails: for the unregistered name \<open>summarize\<close>, \<open>execute_tool\<close>
  raises instead of returning a string, and \<open>process_query\<close> ends with the exception,
  whatever the bound on its rounds.
\<close>

theorem unknown_tool_aborts_query:
  "execute_tool (scripted [[Tool_use_block ''toolu_04'' ''summarize'' []]] (Inr paper_ids) (Inr PNone)) 1
      ''summarize'' [] = Inl (KeyError ''summarize'') \<and>
   (\<exists>s. process_query 5 (scripted [[Tool_use_block ''toolu_04'' ''summarize'' []]] (Inr paper_ids) (Inr PNone))
          ''summarize it'' = Some (Inl (KeyError ''summarize'', s)) \<and>
        messages s = [Message User (Str ''summarize it''), Message Assistant (Blocks 0)])"
  by (simp add: process_query_def initial_def scripted_def execute_tool_def mapping_tool_function_def
        sent_messages_def Let_def eval_nat_numeral)

section \<open>C3: a tool function that raises\<close>




section \<open>C4: a response with zero blocks\<close>

text \<open>
  C4. When the first response has zero content blocks, the \<open>for\<close> loop has nothing
  to run over, \<open>continue\<close> stays set and \<open>response\<close> stays empty, so the \<open>while\<close>
  loop goes round for ever: \<open>process_query\<close> does not return, whatever the bound on
  the rounds (it prints nothing and calls the backend no more, but it does not terminate).
\<close>

theorem process_query_empty_response:
  "messages_create env 0 [Message User (Str query)] = Inr [] \<Longrightarrow>
   process_query n env query = None"
  by (simp add: process_query_def initial_def sent_messages_def while_loop_empty)

theorem process_query_empty_response_witness:
  "process_query 1000 (scripted [[]] (Inr PNone) (Inr PNone)) ''hello'' = None"
  using process_query_empty_response [of "scripted [[]] (Inr PNone) (Inr PNone)" "''hello''" 1000]
  by (simp add: scripted_def)

section \<open>C5: the messages appended earlier\<close>

text \<open>
  C5. The assistant message appended for a tool call holds the list object
  \<open>assistant_content\<close>, to which the later blocks of the same response are appended.
  On a response with a tool call followed by a text, the assistant message is sent to the
  backend with the tool call alone, and holds the tool call and the text when the query
  ends: a message appended earlier has changed its content.
\<close>

theorem assistant_turn_changes_after_it_was_sent:
  "\<exists>s. process_query 2
         (scripted [[search_call, Text_block ''I will summarise them.''], [Text_block ''Done.'']]
            (Inr paper_ids) (Inr PNone))
         ''search computers'' = Some (Inr s) \<and>
       last (calls s) =
         [Message User (Str ''search computers''),
          Message Assistant (Blocks [search_call]),
          Message User (Tool_results [Tool_result ''toolu_01'' ''1310.7911v2, 2208.00733v1''])] \<and>
       sent_messages s =
         [Message User (Str ''search computers''),
          Message Assistant (Blocks [search_call, Text_block ''I will summarise them.'']),
          Message User (Tool_results [Tool_result ''toolu_01'' ''1310.7911v2, 2208.00733v1''])]"
  by (simp add: process_query_def initial_def scripted_def execute_tool_def mapping_tool_function_def
        search_call_def paper_ids_def py_join_def sent_messages_def Let_def numeral_2_eq_2)

section \<open>C6: the result of a tool as a string\<close>

lemma str_items_strings: "str_items (map PStr ss) = Inr ss"
  by (induction ss) simp_all

text \<open>
  C6, as amended. For a registered tool, \<open>execute_tool\<close> turns what the tool function
  returns into a string in this way: \<open>None\<close> gives the fixed sentence \<open>no_results\<close>; a
  list of strings gives its items joined with a comma and a space (the empty list, the
  empty string); a dictionary gives what \<open>json.dumps(result, indent=2)\<close> gives (or
  raises); a string gives itself, an integer its decimal form, a boolean \<open>True\<close> or
  \<open>False\<close>. Nothing is said of a list with an item that is not a string.
\<close>

theorem execute_tool_normalization:
  assumes "mapping_tool_function env tool_name = Some f"
  shows "(f c tool_args = Inr PNone \<longrightarrow> execute_tool env c tool_name tool_args = Inr no_results) \<and>
         (\<forall>ss. f c tool_args = Inr (PList (map PStr ss)) \<longrightarrow>
            execute_tool env c tool_name tool_args = Inr (join_strings '', '' ss)) \<and>
         (\<forall>d. f c tool_args = Inr (PDict d) \<longrightarrow>
            execute_tool env c tool_name tool_args = json_dumps env (PDict d)) \<and>
         (\<forall>s. f c tool_args = Inr (PStr s) \<longrightarrow> execute_tool env c tool_name tool_args = Inr s) \<and>
         (\<forall>n. f c tool_args = Inr (PInt n) \<longrightarrow> execute_tool env c tool_name tool_args = Inr (str_int n)) \<and>
         (\<forall>b. f c tool_args = Inr (PBool b) \<longrightarrow>
            execute_tool env c tool_name tool_args = Inr (if b then ''True'' else ''False''))"
  using assms by (simp add: execute_tool_def py_join_def str_items_strings)

theorem execute_tool_normalization_witness:
  "execute_tool (scripted [] (Inr paper_ids) (Inr (PStr ''There is no saved information.''))) 1
     ''search_papers'' [(''topic'', PStr ''computers'')] = Inr ''1310.7911v2, 2208.00733v1'' \<and>
   execute_tool (scripted [] (Inr paper_ids) (Inr (PStr ''There is no saved information.''))) 1
     ''extract_info'' [(''paper_id'', PStr ''X'')] = Inr ''There is no saved information.'' \<and>
   execute_tool (scripted [] (Inr PNone) (Inr (PDict []))) 1 ''search_papers'' [] = Inr no_results \<and>
   execute_tool (scripted [] (Inr PNone) (Inr (PDict []))) 1 ''extract_info'' [] = Inr ''{}'' \<and>
   execute_tool (scripted [] (Inr (PInt (- 42))) (Inr (PBool True))) 1 ''search_papers'' [] = Inr ''-42'' \<and>
   execute_tool (scripted [] (Inr (PInt (- 42))) (Inr (PBool True))) 1 ''extract_info'' [] = Inr ''True''"
proof -
  let ?env = "scripted [] (Inr paper_ids) (Inr (PStr ''There is no saved information.''))"
  let ?env2 = "scripted [] (Inr PNone) (Inr (PDict []))"
  let ?env3 = "scripted [] (Inr (PInt (- 42))) (Inr (PBool True))"
  have sp: "mapping_tool_function (scripted rs x y) ''search_papers'' = Some (\<lambda>c a. x)"
    and ei: "mapping_tool_function (scripted rs x y) ''extract_info'' = Some (\<lambda>c a. y)" for rs x y
    by (simp_all add: mapping_tool_function_def scripted_def)
  have ids: "paper_ids = PList (map PStr [''1310.7911v2'', ''2208.00733v1''])"
    by (simp add: paper_ids_def)
  have num: "str_int (- 42) = ''-42''" by code_simp
  have a: "execute_tool ?env 1 ''search_papers'' [(''topic'', PStr ''computers'')] =
      Inr (join_strings '', '' [''1310.7911v2'', ''2208.00733v1''])"
    using execute_tool_normalization [OF sp [of "[]" "Inr paper_ids" "Inr (PStr ''There is no saved information.'')"], where c = 1
        and tool_args = "[(''topic'', PStr ''computers'')]"] ids
    by blast
  have b: "execute_tool ?env 1 ''extract_info'' [(''paper_id'', PStr ''X'')] =
      Inr ''There is no saved information.''"
    using execute_tool_normalization [OF ei [of "[]" "Inr paper_ids" "Inr (PStr ''There is no saved information.'')"], where c = 1
        and tool_args = "[(''paper_id'', PStr ''X'')]"]
    by simp
  have c: "execute_tool ?env2 1 ''search_papers'' [] = Inr no_results"
    using execute_tool_normalization [OF sp [of "[]" "Inr PNone" "Inr (PDict [])"], where c = 1 and tool_args = "[]"]
    by simp
  have d: "execute_tool ?env2 1 ''extract_info'' [] = json_dumps ?env2 (PDict [])"
    using execute_tool_normalization [OF ei [of "[]" "Inr PNone" "Inr (PDict [])"], where c = 1 and tool_args = "[]"]
    by simp
  have e: "execute_tool ?env3 1 ''search_papers'' [] = Inr (str_int (- 42))"
    using execute_tool_normalization [OF sp [of "[]" "Inr (PInt (- 42))" "Inr (PBool True)"], where c = 1 and tool_args = "[]"]
    by simp
  have f: "execute_tool ?env3 1 ''extract_info'' [] = Inr ''True''"
    using execute_tool_normalization [OF ei [of "[]" "Inr (PInt (- 42))" "Inr (PBool True)"], where c = 1 and tool_args = "[]"]
    by auto
  have g: "json_dumps ?env2 (PDict []) = Inr ''{}''" by (simp add: scripted_def)
  show ?thesis
    unfolding a b c d e f g num by simp
qed

text \<open>
  C6 as it stands fails: \<open>execute_tool\<close> raises \<open>TypeError\<close> on a list with an item
  that is not a string, and the empty list gives the empty string, not the sentence of
  \<open>None\<close>.
\<close>

theorem execute_tool_not_total:
  "execute_tool (scripted [] (Inr (PList [PStr ''1310.7911v2'', PInt 7])) (Inr PNone)) 1
     ''search_papers'' [(''topic'', PStr ''computers'')] = Inl TypeError \<and>
   execute_tool (scripted [] (Inr (PList [])) (Inr PNone)) 1
     ''search_papers'' [(''topic'', PStr ''zzzz'')] = Inr '''' \<and>
   no_results \<noteq> ''''"
  by (simp add: scripted_def execute_tool_def mapping_tool_function_def py_join_def no_results_def)

section \<open>C7: a first response that is one text block\<close>




section \<open>C8: the responses whose blocks are printed\<close>

text \<open>
  C8. A response that arrives between two tool calls of one response is dropped. The
  first response holds two tool calls; the backend answers the first call with two text
  blocks; the \<open>for\<close> loop goes on with the second call of the first response, whose
  answer replaces the two text blocks in \<open>response\<close>. The two texts are never printed:
  \<open>process_query\<close> prints the two \<open>Calling tool\<close> lines and the last response, with
  any bound of two rounds or more.
\<close>

theorem response_between_tool_calls_dropped:
  "\<forall>n. \<exists>s. process_query (Suc (Suc n)) two_calls_two_texts_env ''search computers'' = Some (Inr s) \<and>
     out s =
       [Calling_tool ''search_papers'' [(''topic'', PStr ''computers'')],
        Calling_tool ''extract_info'' [(''paper_id'', PStr ''1310.7911v2'')],
        Printed ''Done.''] \<and>
     length (calls s) = 3 \<and>
     messages_create two_calls_two_texts_env 1 (calls s ! 1) =
       Inr [Text_block ''I found two papers.'', Text_block ''Let me read the first.'']"
  by (simp add: process_query_def two_calls_two_texts_env_def initial_def scripted_def search_call_def
        extract_call_def paper_ids_def execute_tool_def mapping_tool_function_def py_join_def
        sent_messages_def Let_def)

section \<open>C9: the same value gives the same string\<close>

text \<open>
  C9. Two calls of \<open>execute_tool\<close>, of any registered tools, with any arguments and at
  any moments, in which the tool functions return the same value, give the same result:
  the same string, or the same exception of the conversion.
\<close>

theorem execute_tool_same_value_same_string:
  assumes "mapping_tool_function env tool_name = Some f"
    and "mapping_tool_function env tool_name' = Some f'"
    and "f c tool_args = Inr v" and "f' c' tool_args' = Inr v"
  shows "execute_tool env c tool_name tool_args = execute_tool env c' tool_name' tool_args'"
  using assms by (simp add: execute_tool_def)

theorem execute_tool_same_value_same_string_witness:
  "execute_tool clocked_env 1 ''search_papers'' [(''topic'', PStr ''computers'')] =
   execute_tool clocked_env 4 ''extract_info'' [(''paper_id'', PStr ''X'')] \<and>
   execute_tool clocked_env 1 ''search_papers'' [(''topic'', PStr ''computers'')] =
     Inr ''1310.7911v2, 2208.00733v1''"
proof -
  have a: "mapping_tool_function clocked_env ''search_papers'' = Some (search_papers clocked_env)"
    and b: "mapping_tool_function clocked_env ''extract_info'' = Some (extract_info clocked_env)"
    by (simp_all add: mapping_tool_function_def)
  have c: "search_papers clocked_env 1 [(''topic'', PStr ''computers'')] = Inr paper_ids"
    and d: "extract_info clocked_env 4 [(''paper_id'', PStr ''X'')] = Inr paper_ids"
    by (simp_all add: clocked_env_def)
  from execute_tool_same_value_same_string [OF a b c d]
  show ?thesis
    by (simp add: execute_tool_def mapping_tool_function_def clocked_env_def paper_ids_def py_join_def)
qed

section \<open>C10: the chat loop and exceptions\<close>

text \<open>
  C10, as amended. \<open>chat_loop\<close> returns only when a line of input, stripped and in lower
  case, is \<open>quit\<close>, and no line before it is. An exception of \<open>process_query\<close> (of the
  backend or of a tool) that is an instance of \<open>Exception\<close> is caught: the round prints
  the error line and the loop goes on with the next call of \<open>input\<close>. An exception that
  is not an instance of \<open>Exception\<close> is not caught and leaves \<open>chat_loop\<close>, and no other
  exception does. So when the processing of every query before the first \<open>quit\<close> ends by
  returning or by raising an instance of \<open>Exception\<close>, \<open>chat_loop\<close> reaches that
  \<open>quit\<close> and returns, having printed the banner, the output of every round and the
  last prompt.
\<close>

theorem chat_loop_catches_Exception:
  "(chat_loop n envs inputs = Some (Inr printed') \<longrightarrow>
      (\<exists>pre line rest. inputs = pre @ Inr line # rest \<and> py_lower (py_strip line) = ''quit'' \<and>
         (\<forall>l. Inr l \<in> set pre \<longrightarrow> py_lower (py_strip l) \<noteq> ''quit''))) \<and>
   (chat_loop n envs inputs = Some (Inl (e', printed'')) \<longrightarrow> \<not> is_Exception e') \<and>
   (is_Exception e \<and> py_lower (py_strip line) \<noteq> ''quit'' \<and>
    process_query n (envs i) (py_strip line) = Some (Inl (e, s)) \<longrightarrow>
      chat_rounds (Suc n) envs i (Inr line # rest) printed =
      chat_rounds n envs (Suc i) rest (printed @ Prompted # out s @ [Error_printed e])) \<and>
   (\<not> is_Exception e \<and> py_lower (py_strip line) \<noteq> ''quit'' \<and>
    process_query n (envs i) (py_strip line) = Some (Inl (e, s)) \<longrightarrow>
      chat_rounds (Suc n) envs i (Inr line # rest) printed =
      Some (Inl (e, printed @ Prompted # out s))) \<and>
   (length rs = length qs \<and>
    (\<forall>j<length qs. py_lower (py_strip (qs ! j)) \<noteq> ''quit'' \<and>
       process_query m (envs j) (py_strip (qs ! j)) = Some (rs ! j) \<and> caught (rs ! j)) \<and>
    py_lower (py_strip final) = ''quit'' \<longrightarrow>
      chat_loop (Suc (m + length qs)) envs (map Inr qs @ Inr final # later) =
      Some (Inr (Printed banner # concat (map round_output rs) @ [Prompted])))"
proof (intro conjI impI)
  assume "chat_loop n envs inputs = Some (Inr printed')"
  then show "\<exists>pre line rest. inputs = pre @ Inr line # rest \<and> py_lower (py_strip line) = ''quit'' \<and>
         (\<forall>l. Inr l \<in> set pre \<longrightarrow> py_lower (py_strip l) \<noteq> ''quit'')"
    unfolding chat_loop_def by (rule chat_rounds_quit_only)
next
  assume "chat_loop n envs inputs = Some (Inl (e', printed''))"
  then show "\<not> is_Exception e'"
    unfolding chat_loop_def by (rule chat_rounds_uncaught)
next
  assume "is_Exception e \<and> py_lower (py_strip line) \<noteq> ''quit'' \<and>
    process_query n (envs i) (py_strip line) = Some (Inl (e, s))"
  then show "chat_rounds (Suc n) envs i (Inr line # rest) printed =
      chat_rounds n envs (Suc i) rest (printed @ Prompted # out s @ [Error_printed e])"
    using chat_rounds_step [where line = line and n = n and envs = envs and i = i
        and r = "Inl (e, s)" and rest = rest and printed = printed] by simp
next
  assume "\<not> is_Exception e \<and> py_lower (py_strip line) \<noteq> ''quit'' \<and>
    process_query n (envs i) (py_strip line) = Some (Inl (e, s))"
  then show "chat_rounds (Suc n) envs i (Inr line # rest) printed =
      Some (Inl (e, printed @ Prompted # out s))"
    using chat_rounds_propagates [where line = line and n = n and envs = envs and i = i
        and e = e and s = s and rest = rest and printed = printed] by simp
next
  assume a: "length rs = length qs \<and>
    (\<forall>j<length qs. py_lower (py_strip (qs ! j)) \<noteq> ''quit'' \<and>
       process_query m (envs j) (py_strip (qs ! j)) = Some (rs ! j) \<and> caught (rs ! j)) \<and>
    py_lower (py_strip final) = ''quit''"
  then have "\<forall>j<length qs. py_lower (py_strip (qs ! j)) \<noteq> ''quit'' \<and>
       process_query m (envs (0 + j)) (py_strip (qs ! j)) = Some (rs ! j) \<and> caught (rs ! j)"
    by simp
  with a show "chat_loop (Suc (m + length qs)) envs (map Inr qs @ Inr final # later) =
      Some (Inr (Printed banner # concat (map round_output rs) @ [Prompted]))"
    unfolding chat_loop_def
    using chat_rounds_reaches_quit [where rs = rs and pre = qs and envs = envs and m = m and i = 0
        and line = final and rest = later and printed = "[Printed banner]"]
    by simp
qed

theorem chat_loop_catches_Exception_witness:
  "chat_loop 2 (\<lambda>i. overloaded_env) [Inr ''find papers on llm'', Inr ('' QUIT'' @ [CHR 0xA0])] =
     Some (Inr [Printed banner, Prompted, Error_printed (OtherException ''overloaded''), Prompted]) \<and>
   (\<exists>pre line rest.
      ([Inr ''find papers on llm'', Inr ('' QUIT'' @ [CHR 0xA0])] :: (exn + string) list) =
        pre @ Inr line # rest \<and>
      py_lower (py_strip line) = ''quit'') \<and>
   chat_rounds 2 (\<lambda>i. overloaded_env) 0 [Inr ''find papers on llm'', Inr ('' QUIT'' @ [CHR 0xA0])] [] =
     Some (Inr [Prompted, Error_printed (OtherException ''overloaded''), Prompted]) \<and>
   chat_rounds 1 (\<lambda>i. interrupted_env) 0 [Inr ''find papers on llm'', Inr ''quit''] [] =
     Some (Inl (KeyboardInterrupt, [Prompted])) \<and>
   \<not> is_Exception KeyboardInterrupt"
proof -
  let ?q = "''find papers on llm''"
  let ?quit = "'' QUIT'' @ [CHR 0xA0]"
  let ?s = "(initial ?q)\<lparr>calls := [[Message User (Str ?q)]]\<rparr>"
  let ?rs = "[Inl (OtherException ''overloaded'', ?s) :: outcome]"
  let ?printed = "[Printed banner, Prompted, Error_printed (OtherException ''overloaded''), Prompted]"
  let ?inputs = "[Inr ?q, Inr ?quit] :: (exn + string) list"
  have strip: "py_strip ?q = ?q" by code_simp
  have notquit: "py_lower (py_strip ?q) \<noteq> ''quit''" by code_simp
  have quit: "py_lower (py_strip ?quit) = ''quit''" by code_simp
  have pq: "process_query n overloaded_env ?q = Some (Inl (OtherException ''overloaded'', ?s))" for n
    by (simp add: process_query_def overloaded_env_def scripted_def initial_def sent_messages_def)
  have pqi: "process_query 0 interrupted_env ?q = Some (Inl (KeyboardInterrupt, ?s))"
    by (simp add: process_query_def interrupted_env_def initial_def sent_messages_def)
  have all: "\<forall>j<length [?q]. py_lower (py_strip ([?q] ! j)) \<noteq> ''quit'' \<and>
       process_query 0 ((\<lambda>i. overloaded_env) j) (py_strip ([?q] ! j)) = Some (?rs ! j) \<and>
       caught (?rs ! j)"
    using notquit pq strip by simp
  have len: "length ?rs = length [?q]" by simp
  note reaches = chat_loop_catches_Exception [where envs = "\<lambda>i. overloaded_env" and rs = ?rs
      and qs = "[?q]" and m = 0 and final = ?quit and later = "[]",
      THEN conjunct2, THEN conjunct2, THEN conjunct2, THEN conjunct2]
  note caught_step = chat_loop_catches_Exception [where envs = "\<lambda>i. overloaded_env" and n = 1 and i = 0
      and line = ?q and e = "OtherException ''overloaded''" and s = ?s and rest = "[Inr ?quit]"
      and printed = "[]",
      THEN conjunct2, THEN conjunct2, THEN conjunct1]
  note propagated = chat_loop_catches_Exception [where envs = "\<lambda>i. interrupted_env" and n = 0 and i = 0
      and line = ?q and e = KeyboardInterrupt and s = ?s and rest = "[Inr ''quit'']"
      and printed = "[]",
      THEN conjunct2, THEN conjunct2, THEN conjunct2, THEN conjunct1]
  note only_quit = chat_loop_catches_Exception [where envs = "\<lambda>i. overloaded_env" and n = 2
      and inputs = ?inputs and printed' = ?printed, THEN conjunct1]
  from reaches len all quit
  have "chat_loop (Suc (0 + length [?q])) (\<lambda>i. overloaded_env) (map Inr [?q] @ Inr ?quit # []) =
      Some (Inr (Printed banner # concat (map round_output ?rs) @ [Prompted]))"
    by (elim impE) (intro conjI)
  then have run: "chat_loop 2 (\<lambda>i. overloaded_env) ?inputs = Some (Inr ?printed)"
    by (simp add: initial_def numeral_2_eq_2)
  with only_quit have "\<exists>pre line rest. ?inputs = pre @ Inr line # rest \<and>
      py_lower (py_strip line) = ''quit'' \<and> (\<forall>l. Inr l \<in> set pre \<longrightarrow> py_lower (py_strip l) \<noteq> ''quit'')"
    by (elim impE)
  then obtain pre line rest where "?inputs = pre @ Inr line # rest" "py_lower (py_strip line) = ''quit''"
    by (elim exE conjE)
  then have only: "\<exists>pre line rest. ?inputs = pre @ Inr line # rest \<and> py_lower (py_strip line) = ''quit''"
    by (intro exI conjI)
  from caught_step notquit pq [of 1] strip
  have "chat_rounds (Suc 1) (\<lambda>i. overloaded_env) 0 (Inr ?q # [Inr ?quit]) [] =
      chat_rounds 1 (\<lambda>i. overloaded_env) (Suc 0) [Inr ?quit]
        ([] @ Prompted # out ?s @ [Error_printed (OtherException ''overloaded'')])"
    by simp
  then have step: "chat_rounds 2 (\<lambda>i. overloaded_env) 0 ?inputs [] =
      Some (Inr [Prompted, Error_printed (OtherException ''overloaded''), Prompted])"
    using quit by (simp add: initial_def numeral_2_eq_2)
  from propagated notquit pqi strip
  have "chat_rounds (Suc 0) (\<lambda>i. interrupted_env) 0 (Inr ?q # [Inr ''quit'']) [] =
      Some (Inl (KeyboardInterrupt, [] @ Prompted # out ?s))"
    by simp
  then have interrupted: "chat_rounds 1 (\<lambda>i. interrupted_env) 0 [Inr ?q, Inr ''quit''] [] =
      Some (Inl (KeyboardInterrupt, [Prompted]))"
    by (simp add: initial_def)
  have no: "\<not> is_Exception KeyboardInterrupt" by simp
  from run only step interrupted no show ?thesis
    by (intro conjI)
qed

text \<open>
  C10 as it stands fails: the user interrupts the program while the backend call of the
  first query is pending, \<open>client.messages.create\<close> raises \<open>KeyboardInterrupt\<close>, the
  handler does not catch it, and \<open>chat_loop\<close> ends with it, before the line \<open>quit\<close> is
  read.
\<close>

theorem keyboard_interrupt_ends_chat_loop:
  "chat_loop 3 (\<lambda>i. interrupted_env) [Inr ''find papers on llm'', Inr ''quit''] =
     Some (Inl (KeyboardInterrupt, [Printed banner, Prompted])) \<and>
   py_lower (py_strip ''find papers on llm'') = ''find papers on llm''"
proof -
  have a: "py_lower (py_strip ''find papers on llm'') = ''find papers on llm''" by code_simp
  have b: "py_strip ''find papers on llm'' = ''find papers on llm''" by code_simp
  have "process_query n interrupted_env ''find papers on llm'' =
      Some (Inl (KeyboardInterrupt, (initial ''find papers on llm'')
        \<lparr>calls := [[Message User (Str ''find papers on llm'')]]\<rparr>))" for n
    by (simp add: process_query_def interrupted_env_def initial_def sent_messages_def)
  with a b have "chat_loop 3 (\<lambda>i. interrupted_env) [Inr ''find papers on llm'', Inr ''quit''] =
     Some (Inl (KeyboardInterrupt, [Printed banner, Prompted]))"
    by (simp add: chat_loop_def numeral_3_eq_3 initial_def Let_def)
  with a show ?thesis by simp
qed

end
